theory Spec2Isabelle
  imports Complex_Main "HOL-Library.Char_ord" "HOL-Library.List_Lexorder"
    "HOL-Library.Product_Lexorder"
begin

section \<open>Data model of \<^verbatim>\<open>app.py\<close>\<close>

text \<open>
  The dashboard reads a CSV file into a pandas DataFrame, adds derived columns
  (\<^verbatim>\<open>preprocess\<close>), filters the rows and computes metrics and group-by tables.

  A DataFrame is a list of rows, in index order; a row is a record with one field per
  column. A cell that pandas shows as missing (\<^verbatim>\<open>NaN\<close>, \<^verbatim>\<open>NaT\<close>, \<^verbatim>\<open>None\<close>) is
  \<open>None\<close>. A numeric cell read from the file is a finite number or missing; finite
  arithmetic is exact (the rounding and the overflow of binary64 are not modelled).
  A timestamp is a number of nanoseconds since 1970-01-01 00:00, as in
  \<^verbatim>\<open>datetime64[ns]\<close>.
\<close>

type_synonym timestamp = int

record 'd order =
  Order_ID :: "string option"
  Order_Date :: 'd
  Ship_Date :: 'd
  Ship_Mode :: "string option"
  Region :: "string option"
  Order_Priority :: "string option"
  Sales :: "rat option"
  Profit :: "rat option"
  Discount :: "rat option"
  Shipping_Cost :: "rat option"
  Quantity :: "rat option"
  Category :: "string option"
  Sub_Category :: "string option"
  Product_Name :: "string option"
  Customer_ID :: "string option"
  Customer_Name :: "string option"
  Segment :: "string option"

text \<open>
  The result of a float division in numpy: a finite number, an infinity or \<^verbatim>\<open>NaN\<close>.
  Dividing by zero raises nothing there; it gives an infinity, or \<^verbatim>\<open>NaN\<close> for
  \<^verbatim>\<open>0 / 0\<close>.
\<close>

datatype npfloat = Fin rat | PInf | NInf | NaN

text \<open>The table after \<^verbatim>\<open>preprocess\<close>: both date columns parsed, five columns added.\<close>

record enriched = "timestamp option order" +
  Order_Processing_Time :: "int option"
  Standard_SLA_Days :: "int option"
  Is_Late :: bool
  Profit_Margin :: npfloat
  order_month :: "timestamp option"

datatype py_error = IndexError | ZeroDivisionError

section \<open>Calendar arithmetic\<close>

definition ns_per_day :: int where
  "ns_per_day = 86400000000000"

text \<open>Days since 1970-01-01 of a date of the proleptic Gregorian calendar, and back.\<close>

definition days_from_civil :: "int \<Rightarrow> int \<Rightarrow> int \<Rightarrow> int" where
  "days_from_civil y m d =
     (let y' = (if m \<le> 2 then y - 1 else y);
          era = y' div 400;
          yoe = y' - era * 400;
          doy = (153 * (if m > 2 then m - 3 else m + 9) + 2) div 5 + d - 1;
          doe = yoe * 365 + yoe div 4 - yoe div 100 + doy
      in era * 146097 + doe - 719468)"

definition civil_from_days :: "int \<Rightarrow> int \<times> int \<times> int" where
  "civil_from_days z =
     (let z' = z + 719468;
          era = z' div 146097;
          doe = z' - era * 146097;
          yoe = (doe - doe div 1460 + doe div 36524 - doe div 146096) div 365;
          doy = doe - (365 * yoe + yoe div 4 - yoe div 100);
          mp = (5 * doy + 2) div 153;
          d = doy - (153 * mp + 2) div 5 + 1;
          m = (if mp < 10 then mp + 3 else mp - 9);
          y = yoe + era * 400
      in (if m \<le> 2 then y + 1 else y, m, d))"

text \<open>Midnight of a calendar date, as a timestamp.\<close>

definition midnight :: "int \<Rightarrow> int \<Rightarrow> int \<Rightarrow> timestamp" where
  "midnight y m d = days_from_civil y m d * ns_per_day"

section \<open>Column operations\<close>

text \<open>\<^verbatim>\<open>a - b\<close> on two datetime columns: a timedelta in nanoseconds, \<^verbatim>\<open>NaT\<close> if either is.\<close>

definition sub_datetime :: "timestamp option \<Rightarrow> timestamp option \<Rightarrow> int option" where
  "sub_datetime a b =
     (case a of None \<Rightarrow> None
      | Some x \<Rightarrow> (case b of None \<Rightarrow> None | Some y \<Rightarrow> Some (x - y)))"

text \<open>\<^verbatim>\<open>.dt.days\<close> of a timedelta: whole days, rounded down.\<close>

definition dt_days :: "int option \<Rightarrow> int option" where
  "dt_days td = (case td of None \<Rightarrow> None | Some n \<Rightarrow> Some (n div ns_per_day))"

text \<open>\<^verbatim>\<open>.dt.date\<close> of a timestamp: its calendar day, as days since 1970-01-01.\<close>

definition dt_date :: "timestamp option \<Rightarrow> int option" where
  "dt_date t = (case t of None \<Rightarrow> None | Some n \<Rightarrow> Some (n div ns_per_day))"

text \<open>\<^verbatim>\<open>.dt.to_period('M').dt.to_timestamp()\<close>: midnight of the first day of the month.\<close>

definition to_period_M_to_timestamp :: "timestamp option \<Rightarrow> timestamp option" where
  "to_period_M_to_timestamp t =
     (case t of None \<Rightarrow> None
      | Some n \<Rightarrow> (case civil_from_days (n div ns_per_day) of (y, m, d) \<Rightarrow> Some (midnight y m 1)))"

definition sla_map :: "(string \<times> int) list" where
  "sla_map = [(''Same Day'', 1), (''First Class'', 2), (''Second Class'', 4),
              (''Standard Class'', 5)]"

text \<open>\<^verbatim>\<open>Series.map(d)\<close> with a dict: a value that is not a key, or is missing, gives \<^verbatim>\<open>NaN\<close>.\<close>

definition series_map :: "('k \<times> 'v) list \<Rightarrow> 'k option \<Rightarrow> 'v option" where
  "series_map d x = (case x of None \<Rightarrow> None | Some k \<Rightarrow> map_of d k)"

definition fillna :: "'v \<Rightarrow> 'v option \<Rightarrow> 'v option" where
  "fillna v x = (case x of None \<Rightarrow> Some v | Some y \<Rightarrow> Some y)"

text \<open>\<^verbatim>\<open>a > b\<close> on two numeric columns: false wherever either side is \<^verbatim>\<open>NaN\<close>.\<close>

definition series_gt :: "int option \<Rightarrow> int option \<Rightarrow> bool" where
  "series_gt a b =
     (case a of None \<Rightarrow> False
      | Some x \<Rightarrow> (case b of None \<Rightarrow> False | Some y \<Rightarrow> x > y))"

text \<open>\<^verbatim>\<open>.replace({0: np.nan})\<close>.\<close>

definition replace_0_nan :: "rat option \<Rightarrow> rat option" where
  "replace_0_nan x = (if x = Some 0 then None else x)"

text \<open>\<^verbatim>\<open>a / b\<close> on two float values.\<close>

definition np_truediv :: "rat option \<Rightarrow> rat option \<Rightarrow> npfloat" where
  "np_truediv a b =
     (case a of None \<Rightarrow> NaN
      | Some x \<Rightarrow>
         (case b of None \<Rightarrow> NaN
          | Some y \<Rightarrow>
             if y = 0 then (if x > 0 then PInf else if x < 0 then NInf else NaN)
             else Fin (x / y)))"

section \<open>\<^verbatim>\<open>preprocess\<close>\<close>

text \<open>
  \<^verbatim>\<open>pd.to_datetime(column, dayfirst=True, errors='coerce')\<close> is library code. It is a
  parameter \<open>to_datetime\<close>: \<open>to_datetime col x\<close> is the timestamp that parsing the
  column \<open>col\<close> gives to its cell \<open>x\<close>, \<open>None\<close> where the cell does not parse.
\<close>

definition enrich ::
  "(string option \<Rightarrow> timestamp option) \<Rightarrow> (string option \<Rightarrow> timestamp option) \<Rightarrow>
   string option order \<Rightarrow> enriched" where
  "enrich parse_order parse_ship r =
     (let od = parse_order (Order_Date r);
          sd = parse_ship (Ship_Date r);
          pt = dt_days (sub_datetime sd od);
          sla = fillna 999 (series_map sla_map (Ship_Mode r))
      in \<lparr> Order_ID = Order_ID r, Order_Date = od, Ship_Date = sd,
           Ship_Mode = Ship_Mode r, Region = Region r,
           Order_Priority = Order_Priority r, Sales = Sales r, Profit = Profit r,
           Discount = Discount r, Shipping_Cost = Shipping_Cost r,
           Quantity = Quantity r, Category = Category r,
           Sub_Category = Sub_Category r, Product_Name = Product_Name r,
           Customer_ID = Customer_ID r, Customer_Name = Customer_Name r,
           Segment = Segment r,
           Order_Processing_Time = pt,
           Standard_SLA_Days = sla,
           Is_Late = series_gt pt sla,
           Profit_Margin = np_truediv (Profit r) (replace_0_nan (Sales r)),
           order_month = to_period_M_to_timestamp od \<rparr>)"

definition preprocess ::
  "(string option list \<Rightarrow> string option \<Rightarrow> timestamp option) \<Rightarrow>
   string option order list \<Rightarrow> enriched list" where
  "preprocess to_datetime df =
     map (enrich (to_datetime (map Order_Date df)) (to_datetime (map Ship_Date df))) df"

section \<open>The filter\<close>

text \<open>\<^verbatim>\<open>Series.isin(values)\<close>: membership; a missing cell matches only a missing value.\<close>

definition isin :: "'a option \<Rightarrow> 'a option list \<Rightarrow> bool" where
  "isin x values = (x \<in> set values)"

text \<open>
  \<^verbatim>\<open>column >= d\<close> and \<^verbatim>\<open>column <= d\<close> for a column of \<^verbatim>\<open>date\<close> objects and a
  \<^verbatim>\<open>date\<close>: false at a missing cell.
\<close>

definition date_ge :: "int option \<Rightarrow> int \<Rightarrow> bool" where
  "date_ge x d = (case x of None \<Rightarrow> False | Some y \<Rightarrow> y \<ge> d)"

definition date_le :: "int option \<Rightarrow> int \<Rightarrow> bool" where
  "date_le x d = (case x of None \<Rightarrow> False | Some y \<Rightarrow> y \<le> d)"

definition mask ::
  "int \<Rightarrow> int \<Rightarrow> string option list \<Rightarrow> string option list \<Rightarrow> enriched \<Rightarrow> bool" where
  "mask lo hi regions ship_modes r =
     (date_ge (dt_date (Order_Date r)) lo \<and>
      date_le (dt_date (Order_Date r)) hi \<and>
      isin (Region r) regions \<and>
      isin (Ship_Mode r) ship_modes)"

text \<open>
  \<^verbatim>\<open>date_range\<close> is what the date widget returns, a sequence of dates (days since
  1970-01-01); \<^verbatim>\<open>date_range[0]\<close> and \<^verbatim>\<open>date_range[1]\<close> raise on a shorter one.
\<close>

definition df_filtered ::
  "int list \<Rightarrow> string option list \<Rightarrow> string option list \<Rightarrow> enriched list \<Rightarrow>
   py_error + enriched list" where
  "df_filtered date_range regions ship_modes df =
     (case date_range of
        [] \<Rightarrow> Inl IndexError
      | [lo] \<Rightarrow> Inl IndexError
      | lo # hi # rest \<Rightarrow> Inr (filter (mask lo hi regions ship_modes) df))"

section \<open>Reducers and group-by\<close>

fun dropna :: "'a option list \<Rightarrow> 'a list" where
  "dropna [] = []"
| "dropna (None # xs) = dropna xs"
| "dropna (Some x # xs) = x # dropna xs"

text \<open>\<^verbatim>\<open>.sum()\<close> skips missing cells; the sum of nothing is 0.\<close>

definition series_sum :: "rat option list \<Rightarrow> rat" where
  "series_sum xs = sum_list (dropna xs)"

text \<open>\<^verbatim>\<open>.mean()\<close> skips missing cells; the mean of nothing is \<^verbatim>\<open>NaN\<close>.\<close>

definition series_mean :: "rat option list \<Rightarrow> rat option" where
  "series_mean xs =
     (let ys = dropna xs
      in if ys = [] then None else Some (sum_list ys / of_nat (length ys)))"

text \<open>\<^verbatim>\<open>.nunique()\<close>: the number of distinct values that are not missing.\<close>

definition nunique :: "'a option list \<Rightarrow> nat" where
  "nunique xs = length (remdups (dropna xs))"

text \<open>
  \<^verbatim>\<open>df.groupby(key)\<close> with pandas' defaults (\<^verbatim>\<open>sort=True\<close>, \<^verbatim>\<open>dropna=True\<close>): one
  group per key value that occurs, in ascending key order, each with its rows in table
  order.
\<close>

definition groupby :: "('r \<Rightarrow> 'k::linorder option) \<Rightarrow> 'r list \<Rightarrow> ('k \<times> 'r list) list" where
  "groupby key df =
     map (\<lambda>k. (k, filter (\<lambda>r. key r = Some k) df)) (sort (remdups (dropna (map key df))))"

text \<open>The key of a group-by on two columns.\<close>

definition key2 :: "'a option \<Rightarrow> 'b option \<Rightarrow> ('a \<times> 'b) option" where
  "key2 a b =
     (case a of None \<Rightarrow> None
      | Some x \<Rightarrow> (case b of None \<Rightarrow> None | Some y \<Rightarrow> Some (x, y)))"

definition processing_time :: "enriched \<Rightarrow> rat option" where
  "processing_time r = map_option of_int (Order_Processing_Time r)"

section \<open>Python arithmetic\<close>

text \<open>\<^verbatim>\<open>a / b\<close> on two Python integers.\<close>

definition py_truediv :: "int \<Rightarrow> int \<Rightarrow> py_error + rat" where
  "py_truediv a b = (if b = 0 then Inl ZeroDivisionError else Inr (of_int a / of_int b))"

text \<open>\<^verbatim>\<open>int(x)\<close> on a float: truncation towards zero.\<close>

definition py_int :: "rat \<Rightarrow> int" where
  "py_int x = (if x \<ge> 0 then \<lfloor>x\<rfloor> else \<lceil>x\<rceil>)"

text \<open>\<^verbatim>\<open>round(x, 2)\<close>: to two decimals, a tie to the even neighbour; \<^verbatim>\<open>NaN\<close> stays.\<close>

definition py_round2 :: "rat option \<Rightarrow> rat option" where
  "py_round2 x =
     (case x of None \<Rightarrow> None
      | Some v \<Rightarrow>
         (let y = v * 100; f = \<lfloor>y\<rfloor>; d = y - of_int f
          in Some (of_int (if d < 1 / 2 then f else if d > 1 / 2 then f + 1
                           else if even f then f else f + 1) / 100)))"

section \<open>Tab 1: supply chain and fulfilment\<close>

definition avg_order_processing :: "enriched list \<Rightarrow> rat option" where
  "avg_order_processing df = py_round2 (series_mean (map processing_time df))"

definition total_orders :: "enriched list \<Rightarrow> int" where
  "total_orders df = int (nunique (map Order_ID df))"

text \<open>\<^verbatim>\<open>int(df_filtered['Is Late'].sum())\<close>: the number of rows whose flag is true.\<close>

definition late_orders :: "enriched list \<Rightarrow> int" where
  "late_orders df = int (length (filter Is_Late df))"

definition late_pct :: "enriched list \<Rightarrow> py_error + rat" where
  "late_pct df = py_truediv (100 * late_orders df) (max 1 (int (length df)))"

definition monthly :: "enriched list \<Rightarrow> (timestamp \<times> rat option) list" where
  "monthly df =
     map (\<lambda>(k, g). (k, series_mean (map processing_time g))) (groupby order_month df)"

definition mode_avg :: "enriched list \<Rightarrow> (string \<times> rat option) list" where
  "mode_avg df =
     map (\<lambda>(k, g). (k, series_mean (map processing_time g))) (groupby Ship_Mode df)"

record pri_row =
  pri_Order_Priority :: string
  Order_Count :: nat
  Avg_Time :: "rat option"

definition pri :: "enriched list \<Rightarrow> pri_row list" where
  "pri df =
     map (\<lambda>(k, g). \<lparr> pri_Order_Priority = k,
                      Order_Count = nunique (map Order_ID g),
                      Avg_Time = series_mean (map processing_time g) \<rparr>)
         (groupby Order_Priority df)"

section \<open>Tab 2: financial performance\<close>

definition total_sales :: "enriched list \<Rightarrow> rat" where
  "total_sales df = series_sum (map Sales df)"

definition total_profit :: "enriched list \<Rightarrow> rat" where
  "total_profit df = series_sum (map Profit df)"

text \<open>
  The ``Profit Margin'' metric, before it is formatted as a percentage:
  \<^verbatim>\<open>Profit.sum() / max(1, Sales.sum())\<close>.
\<close>

definition profit_margin_metric :: "enriched list \<Rightarrow> npfloat" where
  "profit_margin_metric df =
     np_truediv (Some (series_sum (map Profit df)))
                (Some (max 1 (series_sum (map Sales df))))"

definition avg_discount :: "enriched list \<Rightarrow> rat option" where
  "avg_discount df = series_mean (map Discount df)"

definition time_agg :: "enriched list \<Rightarrow> (timestamp \<times> rat \<times> rat) list" where
  "time_agg df =
     map (\<lambda>(k, g). (k, series_sum (map Sales g), series_sum (map Profit g)))
         (groupby order_month df)"

definition disc_prof :: "enriched list \<Rightarrow> (string \<times> rat option \<times> rat) list" where
  "disc_prof df =
     map (\<lambda>(k, g). (k, series_mean (map Discount g), series_sum (map Profit g)))
         (groupby Sub_Category df)"

definition ship_cost :: "enriched list \<Rightarrow> (string \<times> rat) list" where
  "ship_cost df =
     map (\<lambda>(k, g). (k, series_sum (map Shipping_Cost g))) (groupby Ship_Mode df)"

section \<open>Tab 3: products\<close>

record prod_row =
  prod_Product_Name :: string
  prod_Sales :: rat
  prod_Profit :: rat
  prod_Quantity :: rat

definition prod_agg :: "enriched list \<Rightarrow> prod_row list" where
  "prod_agg df =
     map (\<lambda>(k, g). \<lparr> prod_Product_Name = k,
                      prod_Sales = series_sum (map Sales g),
                      prod_Profit = series_sum (map Profit g),
                      prod_Quantity = series_sum (map Quantity g) \<rparr>)
         (groupby Product_Name df)"

text \<open>
  \<^verbatim>\<open>DataFrame.sort_values(column, ascending=flag)\<close> is library code, and the source
  leaves its sorting algorithm at the library's default. It is a parameter
  \<open>sort_values\<close>, taking the column, the flag and the rows.
\<close>

type_synonym 'r sorter = "('r \<Rightarrow> rat) \<Rightarrow> bool \<Rightarrow> 'r list \<Rightarrow> 'r list"

definition best_selling :: "prod_row sorter \<Rightarrow> enriched list \<Rightarrow> prod_row list" where
  "best_selling sort_values df = take 1 (sort_values prod_Sales False (prod_agg df))"

definition most_profitable :: "prod_row sorter \<Rightarrow> enriched list \<Rightarrow> prod_row list" where
  "most_profitable sort_values df = take 1 (sort_values prod_Profit False (prod_agg df))"

text \<open>\<^verbatim>\<open>frame['Product Name'].values[0] if not frame.empty else "N/A"\<close>.\<close>

definition product_metric :: "prod_row list \<Rightarrow> string" where
  "product_metric frame = (case frame of [] \<Rightarrow> ''N/A'' | r # rest \<Rightarrow> prod_Product_Name r)"

definition total_quantity :: "enriched list \<Rightarrow> int" where
  "total_quantity df = py_int (sum_list (map prod_Quantity (prod_agg df)))"

text \<open>\<^verbatim>\<open>.tail(10)\<close> and \<^verbatim>\<open>.head(10)\<close> of the frame sorted ascending.\<close>

definition top10_sales :: "prod_row sorter \<Rightarrow> enriched list \<Rightarrow> prod_row list" where
  "top10_sales sort_values df =
     (let xs = sort_values prod_Sales True (prod_agg df) in drop (length xs - 10) xs)"

definition bottom10_profit :: "prod_row sorter \<Rightarrow> enriched list \<Rightarrow> prod_row list" where
  "bottom10_profit sort_values df = take 10 (sort_values prod_Profit True (prod_agg df))"

definition cat_tree :: "enriched list \<Rightarrow> ((string \<times> string) \<times> rat \<times> rat) list" where
  "cat_tree df =
     map (\<lambda>(k, g). (k, series_sum (map Sales g), series_sum (map Profit g)))
         (groupby (\<lambda>r. key2 (Category r) (Sub_Category r)) df)"

section \<open>Tab 4: customers and regions\<close>

definition total_customers :: "enriched list \<Rightarrow> nat" where
  "total_customers df = nunique (map Customer_ID df)"

definition sales_by :: "(enriched \<Rightarrow> 'k::linorder option) \<Rightarrow> enriched list \<Rightarrow> ('k \<times> rat) list" where
  "sales_by key df = map (\<lambda>(k, g). (k, series_sum (map Sales g))) (groupby key df)"

definition top_cust :: "(string \<times> rat) sorter \<Rightarrow> enriched list \<Rightarrow> (string \<times> rat) list" where
  "top_cust sort_values df = take 1 (sort_values snd False (sales_by Customer_Name df))"

definition top_region :: "(string \<times> rat) sorter \<Rightarrow> enriched list \<Rightarrow> (string \<times> rat) list" where
  "top_region sort_values df = take 1 (sort_values snd False (sales_by Region df))"

definition seg :: "enriched list \<Rightarrow> (string \<times> rat) list" where
  "seg df = sales_by Segment df"

definition top_cust_profit ::
  "(string \<times> rat) sorter \<Rightarrow> enriched list \<Rightarrow> (string \<times> rat) list" where
  "top_cust_profit sort_values df =
     take 10 (sort_values snd False
       (map (\<lambda>(k, g). (k, series_sum (map Profit g))) (groupby Customer_Name df)))"

definition reg_seg :: "enriched list \<Rightarrow> ((string \<times> string) \<times> rat) list" where
  "reg_seg df = sales_by (\<lambda>r. key2 (Region r) (Segment r)) df"

section \<open>Example tables\<close>

text \<open>A parser that knows three day-first dates, and rows to run the code on.\<close>

definition ex_to_datetime :: "string option list \<Rightarrow> string option \<Rightarrow> timestamp option" where
  "ex_to_datetime col x =
     (if x = Some ''01/03/2024'' then Some (midnight 2024 3 1)
      else if x = Some ''06/03/2024'' then Some (midnight 2024 3 6)
      else if x = Some ''07/03/2024'' then Some (midnight 2024 3 7)
      else None)"

definition ex_row :: "string option order" where
  "ex_row = \<lparr> Order_ID = Some ''CA-1'', Order_Date = Some ''01/03/2024'',
     Ship_Date = Some ''06/03/2024'', Ship_Mode = Some ''Standard Class'',
     Region = Some ''West'', Order_Priority = Some ''High'', Sales = Some 200,
     Profit = Some 50, Discount = Some (1 / 10), Shipping_Cost = Some 7,
     Quantity = Some 3, Category = Some ''Furniture'', Sub_Category = Some ''Chairs'',
     Product_Name = Some ''Chair'', Customer_ID = Some ''C-1'',
     Customer_Name = Some ''Ann'', Segment = Some ''Consumer'' \<rparr>"

text \<open>The same row shipped a day later.\<close>

definition ex_row_late :: "string option order" where
  "ex_row_late = ex_row \<lparr> Ship_Date := Some ''07/03/2024'' \<rparr>"

text \<open>A row with no sales and a profit of 100.\<close>

definition ex_row_zero_sales :: "string option order" where
  "ex_row_zero_sales = ex_row \<lparr> Sales := Some 0, Profit := Some 100 \<rparr>"

text \<open>A row whose categorical cells are missing.\<close>

definition ex_row_null :: "string option order" where
  "ex_row_null = ex_row \<lparr> Region := None, Order_Priority := None, Product_Name := None \<rparr>"

text \<open>A row with an unknown ship mode and a date that does not parse.\<close>

definition ex_row_odd :: "string option order" where
  "ex_row_odd = ex_row \<lparr> Order_Date := Some ''n/a'', Ship_Mode := Some ''Drone'' \<rparr>"

definition ex_df :: "enriched list" where
  "ex_df = preprocess ex_to_datetime [ex_row, ex_row_late, ex_row_zero_sales, ex_row_null, ex_row_odd]"



text \<open>One sorter the library could be: a stable sort, reversed around for descending.\<close>

definition ex_sort_values :: "'r sorter" where
  "ex_sort_values col ascending xs =
     (if ascending then sort_key col xs else rev (sort_key col (rev xs)))"

section \<open>Evaluating the example table\<close>

lemmas ex_simps = ex_df_def ex_row_def ex_row_late_def ex_row_zero_sales_def ex_row_null_def
  ex_row_odd_def ex_to_datetime_def preprocess_def enrich_def Let_def
  fillna_def series_map_def sla_map_def series_gt_def dt_days_def sub_datetime_def
  midnight_def days_from_civil_def ns_per_day_def np_truediv_def replace_0_nan_def

section \<open>Properties of \<^verbatim>\<open>preprocess\<close>\<close>

text \<open>
  Claim C5. In every row of the enriched table \<^verbatim>\<open>Standard SLA Days\<close> is a number, never
  missing: 1, 2, 4 or 5 for the ship modes ``Same Day'', ``First Class'', ``Second Class''
  and ``Standard Class'', and 999 for any other ship mode and for a missing one.
\<close>

theorem standard_sla_days_total:
  "\<forall>r \<in> set (preprocess to_datetime df).
     Standard_SLA_Days r =
       Some (if Ship_Mode r = Some ''Same Day'' then 1
             else if Ship_Mode r = Some ''First Class'' then 2
             else if Ship_Mode r = Some ''Second Class'' then 4
             else if Ship_Mode r = Some ''Standard Class'' then 5
             else 999)"
  by (auto simp: preprocess_def enrich_def Let_def fillna_def series_map_def sla_map_def
           split: option.splits)

theorem standard_sla_days_total_witness:
  "map Standard_SLA_Days ex_df = [Some 5, Some 5, Some 5, Some 5, Some 999]"
  using standard_sla_days_total
    [of ex_to_datetime "[ex_row, ex_row_late, ex_row_zero_sales, ex_row_null, ex_row_odd]"]
  by (simp add: ex_simps)

text \<open>
  Claim C2. In every row of the enriched table \<^verbatim>\<open>Is Late\<close> is the strict comparison
  \<^verbatim>\<open>Order Processing Time > Standard SLA Days\<close>, and it is false where the processing
  time is missing. A row ordered on 2024-03-01, shipped on 2024-03-06, ``Standard Class'',
  has processing time 5, SLA 5 and is not late; shipped on 2024-03-07 it has processing
  time 6 and is late.
\<close>

theorem is_late_strict:
  "\<forall>r \<in> set (preprocess to_datetime df).
     (Is_Late r \<longleftrightarrow>
        (case Order_Processing_Time r of None \<Rightarrow> False
         | Some p \<Rightarrow> (case Standard_SLA_Days r of None \<Rightarrow> False | Some s \<Rightarrow> p > s))) \<and>
     (Order_Processing_Time r = None \<longrightarrow> \<not> Is_Late r) \<and>
     (Order_Date r = Some (midnight 2024 3 1) \<and> Ship_Date r = Some (midnight 2024 3 6) \<and>
      Ship_Mode r = Some ''Standard Class'' \<longrightarrow>
        Order_Processing_Time r = Some 5 \<and> Standard_SLA_Days r = Some 5 \<and> \<not> Is_Late r) \<and>
     (Order_Date r = Some (midnight 2024 3 1) \<and> Ship_Date r = Some (midnight 2024 3 7) \<and>
      Ship_Mode r = Some ''Standard Class'' \<longrightarrow>
        Order_Processing_Time r = Some 6 \<and> Standard_SLA_Days r = Some 5 \<and> Is_Late r)"
  by (auto simp: preprocess_def enrich_def Let_def fillna_def series_map_def sla_map_def
        series_gt_def dt_days_def sub_datetime_def midnight_def days_from_civil_def
        ns_per_day_def
      split: option.splits)

theorem is_late_strict_witness:
  "map (\<lambda>r. (Order_Date r, Ship_Date r, Ship_Mode r,
             Order_Processing_Time r, Standard_SLA_Days r, Is_Late r)) ex_df =
     [(Some (midnight 2024 3 1), Some (midnight 2024 3 6), Some ''Standard Class'',
       Some 5, Some 5, False),
      (Some (midnight 2024 3 1), Some (midnight 2024 3 7), Some ''Standard Class'',
       Some 6, Some 5, True),
      (Some (midnight 2024 3 1), Some (midnight 2024 3 6), Some ''Standard Class'',
       Some 5, Some 5, False),
      (Some (midnight 2024 3 1), Some (midnight 2024 3 6), Some ''Standard Class'',
       Some 5, Some 5, False),
      (None, Some (midnight 2024 3 6), Some ''Drone'', None, Some 999, False)]"
  using is_late_strict
    [of ex_to_datetime "[ex_row, ex_row_late, ex_row_zero_sales, ex_row_null, ex_row_odd]"]
  by (simp add: ex_simps)



text \<open>
  Claim C9. \<^verbatim>\<open>preprocess\<close> drops no row and reorders none: the enriched table has as
  many rows as the raw table, and every column of the raw table other than the two date
  columns is the same column, cell by cell in the same order, in the enriched table. The
  two date columns hold what parsing gives, row by row.
\<close>

theorem preprocess_frame:
  "length (preprocess to_datetime df) = length df \<and>
   map Order_ID (preprocess to_datetime df) = map Order_ID df \<and>
   map Ship_Mode (preprocess to_datetime df) = map Ship_Mode df \<and>
   map Region (preprocess to_datetime df) = map Region df \<and>
   map Order_Priority (preprocess to_datetime df) = map Order_Priority df \<and>
   map Sales (preprocess to_datetime df) = map Sales df \<and>
   map Profit (preprocess to_datetime df) = map Profit df \<and>
   map Discount (preprocess to_datetime df) = map Discount df \<and>
   map Shipping_Cost (preprocess to_datetime df) = map Shipping_Cost df \<and>
   map Quantity (preprocess to_datetime df) = map Quantity df \<and>
   map Category (preprocess to_datetime df) = map Category df \<and>
   map Sub_Category (preprocess to_datetime df) = map Sub_Category df \<and>
   map Product_Name (preprocess to_datetime df) = map Product_Name df \<and>
   map Customer_ID (preprocess to_datetime df) = map Customer_ID df \<and>
   map Customer_Name (preprocess to_datetime df) = map Customer_Name df \<and>
   map Segment (preprocess to_datetime df) = map Segment df \<and>
   map Order_Date (preprocess to_datetime df) =
     map (to_datetime (map Order_Date df)) (map Order_Date df) \<and>
   map Ship_Date (preprocess to_datetime df) =
     map (to_datetime (map Ship_Date df)) (map Ship_Date df)"
  by (simp add: preprocess_def enrich_def Let_def comp_def)

section \<open>Properties of the filter\<close>

text \<open>
  Claim C1. With a start and an end date and selections of region and ship-mode strings,
  the filter keeps exactly the rows whose order date is present, whose calendar day lies
  between the two dates, both included, whose region is one of the selected regions and
  whose ship mode is one of the selected ship modes; it keeps them in table order. An
  empty selection of regions, or of ship modes, leaves no row, whatever the dates.
\<close>

theorem df_filtered_iff:
  "df_filtered [lo, hi] (map Some regions) (map Some ship_modes) df =
     Inr (filter (\<lambda>r.
            (case Order_Date r of None \<Rightarrow> False
             | Some t \<Rightarrow> lo \<le> t div ns_per_day \<and> t div ns_per_day \<le> hi) \<and>
            (case Region r of None \<Rightarrow> False | Some g \<Rightarrow> g \<in> set regions) \<and>
            (case Ship_Mode r of None \<Rightarrow> False | Some m \<Rightarrow> m \<in> set ship_modes)) df) \<and>
   df_filtered [lo, hi] [] (map Some ship_modes) df = Inr [] \<and>
   df_filtered [lo, hi] (map Some regions) [] df = Inr []"
proof -
  have m: "mask lo hi (map Some rs) (map Some ms) = (\<lambda>r.
      (case Order_Date r of None \<Rightarrow> False
       | Some t \<Rightarrow> lo \<le> t div ns_per_day \<and> t div ns_per_day \<le> hi) \<and>
      (case Region r of None \<Rightarrow> False | Some g \<Rightarrow> g \<in> set rs) \<and>
      (case Ship_Mode r of None \<Rightarrow> False | Some m \<Rightarrow> m \<in> set ms))" for rs ms
    by (rule ext)
       (auto simp: mask_def date_ge_def date_le_def dt_date_def isin_def split: option.splits)
  have e1: "mask lo hi [] ms = (\<lambda>r. False)" for ms
    by (rule ext) (simp add: mask_def isin_def)
  have e2: "mask lo hi rs [] = (\<lambda>r. False)" for rs
    by (rule ext) (simp add: mask_def isin_def)
  show ?thesis by (simp add: df_filtered_def m e1 e2)
qed

text \<open>
  Claim C10. When neither selection contains a missing value, the filter keeps no row
  whose region is missing and no row whose ship mode is missing.
\<close>

theorem null_never_selected:
  "None \<notin> set regions \<Longrightarrow> None \<notin> set ship_modes \<Longrightarrow>
   df_filtered [lo, hi] regions ship_modes df = Inr out \<Longrightarrow>
   (\<forall>r \<in> set df. Region r = None \<or> Ship_Mode r = None \<longrightarrow> r \<notin> set out) \<and>
   (\<forall>r \<in> set out. Region r \<noteq> None \<and> Ship_Mode r \<noteq> None)"
proof -
  assume a: "None \<notin> set regions" "None \<notin> set ship_modes"
    and f: "df_filtered [lo, hi] regions ship_modes df = Inr out"
  have m: "mask lo hi regions ship_modes r \<Longrightarrow> Region r \<noteq> None \<and> Ship_Mode r \<noteq> None" for r
    using a unfolding mask_def isin_def by metis
  from f have "out = filter (mask lo hi regions ship_modes) df"
    by (simp add: df_filtered_def)
  with m show ?thesis by fastforce
qed

theorem null_never_selected_witness:
  "None \<notin> set [Some ''West''] \<and> None \<notin> set [Some ''Standard Class'', Some ''Drone''] \<and>
   df_filtered [days_from_civil 2024 1 1, days_from_civil 2024 12 31]
      [Some ''West''] [Some ''Standard Class'', Some ''Drone''] ex_df = Inr (take 3 ex_df) \<and>
   Region (ex_df ! 3) = None \<and> ex_df ! 3 \<in> set ex_df \<and> ex_df ! 3 \<notin> set (take 3 ex_df)"
proof -
  have a: "None \<notin> set [Some ''West'']" "None \<notin> set [Some ''Standard Class'', Some ''Drone'']"
    by simp_all
  have f: "df_filtered [days_from_civil 2024 1 1, days_from_civil 2024 12 31]
      [Some ''West''] [Some ''Standard Class'', Some ''Drone''] ex_df = Inr (take 3 ex_df)"
    by (simp add: ex_simps df_filtered_def mask_def isin_def date_ge_def date_le_def dt_date_def)
  have r: "Region (ex_df ! 3) = None" "ex_df ! 3 \<in> set ex_df"
    by (simp_all add: ex_df_def preprocess_def enrich_def Let_def ex_row_null_def ex_row_def)
  from null_never_selected [OF a f] r have "ex_df ! 3 \<notin> set (take 3 ex_df)" by blast
  with a f r show ?thesis by blast
qed

section \<open>Properties of the metrics and group-by tables\<close>










text \<open>
  Claim C8. On an empty filtered table nothing raises: every sum is 0, every mean is
  missing, every count and distinct count is 0, the late percentage is 0 (its divisor is
  \<^verbatim>\<open>max(1, 0) = 1\<close>), every group-by table is empty, and the best-selling and
  most-profitable products read ``N/A''. The ranked selections need only that sorting an
  empty frame gives an empty frame.
\<close>

theorem empty_table_metrics:
  "sort_values prod_Sales False [] = [] \<Longrightarrow> sort_values prod_Profit False [] = [] \<Longrightarrow>
   sort_values prod_Sales True [] = [] \<Longrightarrow> sort_values prod_Profit True [] = [] \<Longrightarrow>
   sort_values' snd False [] = [] \<Longrightarrow>
   avg_order_processing [] = None \<and> total_orders [] = 0 \<and> late_orders [] = 0 \<and>
   late_pct [] = Inr 0 \<and> monthly [] = [] \<and> mode_avg [] = [] \<and> pri [] = [] \<and>
   total_sales [] = 0 \<and> total_profit [] = 0 \<and> profit_margin_metric [] = Fin 0 \<and>
   avg_discount [] = None \<and> time_agg [] = [] \<and> disc_prof [] = [] \<and> ship_cost [] = [] \<and>
   prod_agg [] = [] \<and> total_quantity [] = 0 \<and> cat_tree [] = [] \<and>
   product_metric (best_selling sort_values []) = ''N/A'' \<and>
   product_metric (most_profitable sort_values []) = ''N/A'' \<and>
   top10_sales sort_values [] = [] \<and> bottom10_profit sort_values [] = [] \<and>
   total_customers [] = 0 \<and> top_cust sort_values' [] = [] \<and>
   top_region sort_values' [] = [] \<and> seg [] = [] \<and>
   top_cust_profit sort_values' [] = [] \<and> reg_seg [] = []"
  by (simp add: avg_order_processing_def py_round2_def series_mean_def total_orders_def
      nunique_def late_orders_def late_pct_def py_truediv_def monthly_def mode_avg_def pri_def
      total_sales_def total_profit_def series_sum_def profit_margin_metric_def np_truediv_def
      avg_discount_def time_agg_def disc_prof_def ship_cost_def prod_agg_def total_quantity_def
      py_int_def cat_tree_def product_metric_def best_selling_def most_profitable_def
      top10_sales_def bottom10_profit_def total_customers_def top_cust_def top_region_def
      seg_def top_cust_profit_def reg_seg_def sales_by_def groupby_def)

theorem empty_table_metrics_witness:
  "df_filtered [days_from_civil 2024 1 1, days_from_civil 2024 12 31] []
      [Some ''Standard Class''] ex_df = Inr [] \<and>
   avg_order_processing [] = None \<and> total_orders [] = 0 \<and> late_orders [] = 0 \<and>
   late_pct [] = Inr 0 \<and> total_sales [] = 0 \<and> profit_margin_metric [] = Fin 0 \<and>
   avg_discount [] = None \<and> prod_agg [] = [] \<and> total_quantity [] = 0 \<and>
   product_metric (best_selling ex_sort_values []) = ''N/A'' \<and>
   product_metric (most_profitable ex_sort_values []) = ''N/A'' \<and>
   total_customers [] = 0 \<and> top_cust ex_sort_values [] = [] \<and>
   top_cust_profit ex_sort_values [] = []"
proof -
  have s: "ex_sort_values col b [] = []" for col :: "'r \<Rightarrow> rat" and b
    by (simp add: ex_sort_values_def)
  have f: "df_filtered [days_from_civil 2024 1 1, days_from_civil 2024 12 31] []
      [Some ''Standard Class''] ex_df = Inr []"
    by (simp add: df_filtered_def mask_def isin_def)
  from empty_table_metrics [of ex_sort_values ex_sort_values, OF s s s s s] f
  show ?thesis by blast
qed

end
